theory Spec2Isabelle
  imports Main "HOL-Library.Log_Nat" "HOL-Library.Sublist"
begin

section \<open>JavaScript strings and numbers used by the parser\<close>

text \<open>
  A JavaScript string is modelled as a \<open>string\<close>: a list of code units, here restricted to
  the code units below 256 (read as Latin-1). A value that may be \<open>undefined\<close> (an array
  read out of range) is a \<open>string option\<close>, \<open>None\<close> standing for \<open>undefined\<close>.
\<close>

definition isWhiteSpace :: "char \<Rightarrow> bool" where
  \<comment> \<open>WhiteSpace and LineTerminator of ECMAScript below code unit 256:
      TAB, LF, VT, FF, CR, SP, NBSP.\<close>
  "isWhiteSpace c \<longleftrightarrow> c \<in> set [CHR 0x09, CHR 0x0A, CHR 0x0B, CHR 0x0C, CHR 0x0D, CHR 0x20, CHR 0xA0]"

definition trimStart :: "string \<Rightarrow> string" where
  "trimStart s = dropWhile isWhiteSpace s"

definition trimEnd :: "string \<Rightarrow> string" where
  "trimEnd s = rev (dropWhile isWhiteSpace (rev s))"

definition trim :: "string \<Rightarrow> string" where
  \<comment> \<open>\<open>String.prototype.trim\<close>\<close>
  "trim s = trimEnd (trimStart s)"

fun split_on :: "char \<Rightarrow> string \<Rightarrow> string list" where
  \<comment> \<open>\<open>s.split(sep)\<close> for a separator of one code unit: never empty, \<open>''''\<close> gives \<open>['''']\<close>.\<close>
  "split_on sep [] = [[]]"
| "split_on sep (c # cs) =
     (if c = sep then [] # split_on sep cs
      else (case split_on sep cs of [] \<Rightarrow> [[c]] | w # ws \<Rightarrow> (c # w) # ws))"

definition remove_quotes :: "string \<Rightarrow> string" where
  \<comment> \<open>\<open>s.replace(/"/g, '')\<close>: the global flag removes every double quote.\<close>
  "remove_quotes s = filter (\<lambda>c. c \<noteq> CHR 0x22) s"

definition toLowerChar :: "char \<Rightarrow> char" where
  \<comment> \<open>Lower-case mapping of the code units below 256: A-Z, and the Latin-1 capitals
      0xC0-0xDE except the multiplication sign 0xD7.\<close>
  "toLowerChar c =
     (let n = (of_char c :: nat) in
      if (65 \<le> n \<and> n \<le> 90) \<or> (192 \<le> n \<and> n \<le> 222 \<and> n \<noteq> 215)
      then char_of (n + 32) else c)"

definition toLowerCase :: "string \<Rightarrow> string" where
  "toLowerCase s = map toLowerChar s"

fun findIndex :: "('a \<Rightarrow> bool) \<Rightarrow> 'a list \<Rightarrow> int" where
  \<comment> \<open>\<open>Array.prototype.findIndex\<close>: the first index whose element satisfies the predicate, or -1.\<close>
  "findIndex p [] = - 1"
| "findIndex p (x # xs) =
     (if p x then 0 else (let r = findIndex p xs in if r = - 1 then - 1 else r + 1))"

definition at_index :: "'a list \<Rightarrow> int \<Rightarrow> 'a option" where
  \<comment> \<open>\<open>xs[i]\<close>: \<open>undefined\<close> out of range.\<close>
  "at_index xs i = (if 0 \<le> i \<and> nat i < length xs then Some (xs ! nat i) else None)"

datatype number = NaN | Infinity | NegInfinity | NegZero | Finite rat

text \<open>
  A \<open>number\<close> is an IEEE 754 binary64 value: \<open>Finite q\<close> carries the exact rational value of
  a finite double (\<open>Finite 0\<close> is +0), \<open>NegZero\<close> is -0. The value of a decimal literal is
  its mathematical value rounded to the nearest double, ties to even (\<open>to_double\<close>), so that
  a literal too small in magnitude becomes a zero and one too large an infinity.
\<close>

definition lt_zero :: "number \<Rightarrow> bool" where
  \<comment> \<open>\<open>x < 0\<close>: false for NaN and for both zeros.\<close>
  "lt_zero x = (case x of NegInfinity \<Rightarrow> True | Finite q \<Rightarrow> q < 0 | _ \<Rightarrow> False)"

definition negate :: "number \<Rightarrow> number" where
  "negate x = (case x of NaN \<Rightarrow> NaN | Infinity \<Rightarrow> NegInfinity | NegInfinity \<Rightarrow> Infinity
     | NegZero \<Rightarrow> Finite 0 | Finite q \<Rightarrow> (if q = 0 then NegZero else Finite (- q)))"

definition pow2 :: "int \<Rightarrow> rat" where
  "pow2 e = (if 0 \<le> e then 2 ^ nat e else 1 / 2 ^ nat (- e))"

definition ilog2 :: "int \<Rightarrow> int \<Rightarrow> int" where
  \<comment> \<open>\<open>\<lfloor>log\<^sub>2 (n / d)\<rfloor>\<close> for positive \<open>n\<close> and \<open>d\<close>.\<close>
  "ilog2 n d =
     (let k = bitlen n - bitlen d in
      if (if 0 \<le> k then d * 2 ^ nat k \<le> n else d \<le> n * 2 ^ nat (- k)) then k else k - 1)"

definition round_half_even :: "int \<Rightarrow> int \<Rightarrow> int" where
  \<comment> \<open>\<open>n / d\<close> (\<open>n \<ge> 0\<close>, \<open>d > 0\<close>) rounded to the nearest integer, a tie to the even one.\<close>
  "round_half_even n d =
     (let q = n div d; r = n mod d in
      if 2 * r < d then q else if d < 2 * r then q + 1 else if even q then q else q + 1)"

definition to_double :: "int \<Rightarrow> int \<Rightarrow> number" where
  \<comment> \<open>The binary64 value nearest to \<open>n / d\<close> (\<open>n \<ge> 0\<close>, \<open>d > 0\<close>), ties to even:
      53 significant bits, least exponent -1022 (subnormals below), overflow to Infinity.\<close>
  "to_double n d =
     (if n = 0 then Finite 0
      else
        let e = max (ilog2 n d) (- 1022);
            s = e - 52;
            m = (if s \<le> 0 then round_half_even (n * 2 ^ nat (- s)) d
                 else round_half_even n (d * 2 ^ nat s));
            r = of_int m * pow2 s
        in if 2 ^ 1024 \<le> r then Infinity else Finite r)"

definition isDigit :: "char \<Rightarrow> bool" where
  "isDigit c \<longleftrightarrow> c \<in> set ''0123456789''"

definition digits_value :: "string \<Rightarrow> int" where
  "digits_value ds = foldl (\<lambda>n c. 10 * n + (of_char c - 48)) 0 ds"

definition starts_with :: "string \<Rightarrow> string \<Rightarrow> bool" where
  "starts_with s p \<longleftrightarrow> take (length p) s = p"

definition exponent_part :: "string \<Rightarrow> int" where
  \<comment> \<open>The value of an ExponentPart at the head of the string, 0 when there is none
      (an \<open>e\<close> with no digit after it is not part of the literal).\<close>
  "exponent_part s =
     (case s of
        [] \<Rightarrow> 0
      | c # r \<Rightarrow>
          if c = CHR ''e'' \<or> c = CHR ''E'' then
            (case r of
               [] \<Rightarrow> 0
             | d # r' \<Rightarrow>
                 if d = CHR ''+'' then
                   (if takeWhile isDigit r' = [] then 0 else digits_value (takeWhile isDigit r'))
                 else if d = CHR ''-'' then
                   (if takeWhile isDigit r' = [] then 0 else - digits_value (takeWhile isDigit r'))
                 else
                   (if takeWhile isDigit r = [] then 0 else digits_value (takeWhile isDigit r)))
          else 0)"

definition unsigned_literal :: "string \<Rightarrow> number" where
  \<comment> \<open>The value of the longest prefix that is a StrUnsignedDecimalLiteral, NaN when there is none.\<close>
  "unsigned_literal s =
     (if starts_with s ''Infinity'' then Infinity
      else
        let ip = takeWhile isDigit s;
            r1 = dropWhile isDigit s;
            dot = (r1 \<noteq> [] \<and> hd r1 = CHR ''.'' \<and> (ip \<noteq> [] \<or> takeWhile isDigit (tl r1) \<noteq> []));
            fp = (if dot then takeWhile isDigit (tl r1) else []);
            r2 = (if dot then dropWhile isDigit (tl r1) else r1)
        in if ip = [] \<and> fp = [] then NaN
           else
             let m = digits_value (ip @ fp);
                 x = exponent_part r2 - int (length fp)
             in if 0 \<le> x then to_double (m * 10 ^ nat x) 1 else to_double m (10 ^ nat (- x)))"

definition parseFloat :: "string option \<Rightarrow> number" where
  \<comment> \<open>\<open>parseFloat(v)\<close>: the argument is converted to a string (\<open>undefined\<close> to
      \<open>''undefined''\<close>), leading white space is skipped, and the longest prefix that is a
      StrDecimalLiteral is read; NaN when there is none.\<close>
  "parseFloat v =
     (let s = trimStart (case v of None \<Rightarrow> ''undefined'' | Some t \<Rightarrow> t) in
      case s of
        [] \<Rightarrow> NaN
      | c # r \<Rightarrow>
          if c = CHR ''-'' then negate (unsigned_literal r)
          else if c = CHR ''+'' then unsigned_literal r
          else unsigned_literal s)"

section \<open>The CSV parser (App.tsx, parseCSV)\<close>

datatype thrown = Error (message: string) | NonError

text \<open>
  A thrown value: \<open>Error msg\<close> is an instance of the JavaScript class \<open>Error\<close> (or of a
  subclass) with that message, \<open>NonError\<close> any other thrown value. A function that may throw
  returns \<open>thrown + 'a\<close>.
\<close>

record Transaction =
  date :: "string option"
  name :: "string option"
  amount :: number

definition split_row :: "string \<Rightarrow> string list" where
  \<comment> \<open>\<open>line.split(',').map(c => c.trim().replace(/"/g, ''))\<close>\<close>
  "split_row line = map (\<lambda>c. remove_quotes (trim c)) (split_on CHR '','' line)"

function rows_loop ::
  "string list \<Rightarrow> int \<Rightarrow> int \<Rightarrow> int \<Rightarrow> nat \<Rightarrow> Transaction list \<Rightarrow> Transaction list" where
  \<comment> \<open>The \<open>for\<close> loop of parseCSV, from index \<open>i\<close>, pushing onto \<open>transactions\<close>.\<close>
  "rows_loop lines dateIdx nameIdx amountIdx i transactions =
     (if i < length lines then
        let cols = split_row (lines ! i);
            amount = parseFloat (at_index cols amountIdx)
        in rows_loop lines dateIdx nameIdx amountIdx (Suc i)
             (if lt_zero amount
              then transactions @
                [\<lparr>date = at_index cols dateIdx, name = at_index cols nameIdx, amount = amount\<rparr>]
              else transactions)
      else transactions)"
  by pat_completeness auto
termination
  by (relation "measure (\<lambda>(lines, d, n, a, i, acc). length lines - i)") auto

definition parseCSV :: "string \<Rightarrow> thrown + Transaction list" where
  "parseCSV text =
     (let lines = split_on CHR 0x0A (trim text) in
      if length lines < 2 then Inr []
      else
        let headers = split_row (lines ! 0);
            dateIdx = findIndex (\<lambda>h. toLowerCase h = ''date'') headers;
            nameIdx = findIndex (\<lambda>h. toLowerCase h = ''name'') headers;
            amountIdx = findIndex (\<lambda>h. toLowerCase h = ''amount'') headers
        in if dateIdx = - 1 \<or> nameIdx = - 1 \<or> amountIdx = - 1
           then Inl (Error ''CSV must have Date, Name, and Amount columns'')
           else Inr (rows_loop lines dateIdx nameIdx amountIdx 1 []))"

subsection \<open>The lines, header fields and rows of an input text\<close>

definition text_lines :: "string \<Rightarrow> string list" where
  "text_lines text = split_on CHR 0x0A (trim text)"

definition header_fields :: "string \<Rightarrow> string list" where
  "header_fields text = split_row (hd (text_lines text))"

definition data_rows :: "string \<Rightarrow> string list" where
  "data_rows text = tl (text_lines text)"

definition column :: "string \<Rightarrow> string \<Rightarrow> int" where
  \<comment> \<open>The index the parser resolves for a header name.\<close>
  "column h text = findIndex (\<lambda>x. toLowerCase x = h) (header_fields text)"

definition has_header :: "string \<Rightarrow> string \<Rightarrow> bool" where
  "has_header h text \<longleftrightarrow> (\<exists>x \<in> set (header_fields text). toLowerCase x = h)"

definition row_amount :: "string \<Rightarrow> string \<Rightarrow> number" where
  "row_amount text line = parseFloat (at_index (split_row line) (column ''amount'' text))"

definition row_transaction :: "string \<Rightarrow> string \<Rightarrow> Transaction" where
  "row_transaction text line =
     \<lparr>date = at_index (split_row line) (column ''date'' text),
      name = at_index (split_row line) (column ''name'' text),
      amount = row_amount text line\<rparr>"

section \<open>The upload controller (App.tsx, App)\<close>

text \<open>
  A \<open>File\<close> is the selected file: its name, and the outcome of \<open>await f.text()\<close> (the
  text, or the value the promise rejects with). The React state of \<open>App\<close> is a record; each
  setter call is a record update, in the order of the calls; a state variable that is
  \<open>null\<close> is \<open>None\<close>. A response body parsed by \<open>res.json()\<close> is a \<open>json_value\<close>, the
  members of an object in the order of the text. Two things are the engine's and are
  parameters of \<open>handleSubmit\<close>: the message of the TypeError that reading a property of
  \<open>null\<close> throws, and the conversion to a string of a value that is not a string (which may
  throw).
\<close>

record File =
  file_name :: string
  file_text :: "thrown + string"

record 'j AppState =
  "file" :: "File option"
  transactions :: "Transaction list"
  dragActive :: bool
  error :: "string option"
  loading :: bool
  result :: "'j option"

datatype json_value = JNull | JBool bool | JNumber number | JString string
  | JArray "json_value list" | JObject "(string \<times> json_value) list"

datatype 'j Response = Response (status: nat) (json: "thrown + 'j")

definition ok :: "'j Response \<Rightarrow> bool" where
  \<comment> \<open>\<open>res.ok\<close>: the status is in the range 200-299.\<close>
  "ok res \<longleftrightarrow> 200 \<le> status res \<and> status res \<le> 299"

definition endsWith :: "string \<Rightarrow> string \<Rightarrow> bool" where
  "endsWith s t \<longleftrightarrow> length t \<le> length s \<and> drop (length s - length t) s = t"

definition message_or :: "thrown \<Rightarrow> string \<Rightarrow> string" where
  \<comment> \<open>\<open>err instanceof Error ? err.message : dflt\<close>\<close>
  "message_or err dflt = (case err of Error msg \<Rightarrow> msg | NonError \<Rightarrow> dflt)"

definition member :: "string \<Rightarrow> (string \<times> json_value) list \<Rightarrow> json_value option" where
  \<comment> \<open>The value of a property of a parsed object: that of the last member with the name,
      \<open>undefined\<close> when there is none.\<close>
  "member key members = map_of (rev members) key"

definition read_detail :: "string \<Rightarrow> json_value \<Rightarrow> thrown + json_value option" where
  \<comment> \<open>\<open>err.detail\<close>: on \<open>null\<close> the read throws a TypeError (with the engine's message); a
      boolean, a number, a string and an array have no property \<open>detail\<close>.\<close>
  "read_detail type_error body =
     (case body of
        JNull \<Rightarrow> Inl (Error type_error)
      | JObject members \<Rightarrow> Inr (member ''detail'' members)
      | _ \<Rightarrow> Inr None)"

definition truthy_value :: "json_value option \<Rightarrow> bool" where
  \<comment> \<open>A value in a condition: \<open>undefined\<close>, \<open>null\<close>, \<open>false\<close>, the zeros, NaN and the
      empty string are falsy, every array and object is truthy.\<close>
  "truthy_value v =
     (case v of
        None \<Rightarrow> False
      | Some JNull \<Rightarrow> False
      | Some (JBool b) \<Rightarrow> b
      | Some (JNumber n) \<Rightarrow>
          (case n of NaN \<Rightarrow> False | NegZero \<Rightarrow> False | Finite q \<Rightarrow> q \<noteq> 0 | _ \<Rightarrow> True)
      | Some (JString x) \<Rightarrow> x \<noteq> []
      | Some (JArray xs) \<Rightarrow> True
      | Some (JObject members) \<Rightarrow> True)"

definition or_else :: "json_value option \<Rightarrow> json_value \<Rightarrow> json_value" where
  \<comment> \<open>\<open>v || dflt\<close>\<close>
  "or_else v dflt = (case v of None \<Rightarrow> dflt | Some x \<Rightarrow> if truthy_value v then x else dflt)"

definition throw_new_Error :: "(json_value \<Rightarrow> thrown + string) \<Rightarrow> json_value \<Rightarrow> thrown" where
  \<comment> \<open>What \<open>throw new Error(x)\<close> throws: the error whose message is \<open>x\<close> converted to a
      string, or what the conversion throws.\<close>
  "throw_new_Error toString x =
     (case x of
        JString msg \<Rightarrow> Error msg
      | _ \<Rightarrow> (case toString x of Inl err \<Rightarrow> err | Inr msg \<Rightarrow> Error msg))"

definition nullable :: "json_value \<Rightarrow> json_value option" where
  \<comment> \<open>A parsed value stored in a state variable: \<open>null\<close> is \<open>None\<close>.\<close>
  "nullable v = (case v of JNull \<Rightarrow> None | _ \<Rightarrow> Some v)"

definition App_initial :: "'j AppState" where
  \<comment> \<open>The initial values of the \<open>useState\<close> calls of \<open>App\<close>.\<close>
  "App_initial = \<lparr>file = None, transactions = [], dragActive = False, error = None,
     loading = False, result = None\<rparr>"

definition handleFile :: "File \<Rightarrow> 'j AppState \<Rightarrow> 'j AppState" where
  "handleFile f s =
     (if \<not> endsWith (file_name f) ''.csv'' then s\<lparr>error := Some ''Please upload a CSV file''\<rparr>
      else
        let s1 = s\<lparr>error := None, file := Some f\<rparr> in
        case (case file_text f of Inl err \<Rightarrow> Inl err | Inr text \<Rightarrow> parseCSV text) of
          Inr txs \<Rightarrow> s1\<lparr>transactions := txs\<rparr>
        | Inl err \<Rightarrow> s1\<lparr>error := Some (message_or err ''Failed to parse CSV''), transactions := []\<rparr>)"

definition clear :: "'j AppState \<Rightarrow> 'j AppState" where
  "clear s = s\<lparr>file := None, transactions := [], error := None, result := None\<rparr>"

definition submit_request ::
  "string \<Rightarrow> (json_value \<Rightarrow> thrown + string) \<Rightarrow> thrown + json_value Response \<Rightarrow>
   thrown + json_value" where
  \<comment> \<open>The body of the \<open>try\<close> block of handleSubmit, given the outcome of \<open>await fetch(...)\<close>:
      the parsed result, or the thrown value.\<close>
  "submit_request type_error toString outcome =
     (case outcome of
        Inl err \<Rightarrow> Inl err
      | Inr res \<Rightarrow>
          if \<not> ok res then
            (case json res of
               Inl err \<Rightarrow> Inl err
             | Inr err \<Rightarrow>
                 (case read_detail type_error err of
                    Inl thrown \<Rightarrow> Inl thrown
                  | Inr detail \<Rightarrow>
                      Inl (throw_new_Error toString (or_else detail (JString ''Import failed'')))))
          else json res)"

definition handleSubmit ::
  "string \<Rightarrow> (json_value \<Rightarrow> thrown + string) \<Rightarrow> thrown + json_value Response \<Rightarrow>
   json_value AppState \<Rightarrow> json_value AppState" where
  "handleSubmit type_error toString outcome s =
     (if file s = None \<or> transactions s = [] then s
      else
        let s1 = s\<lparr>loading := True, error := None, result := None\<rparr>;
            s2 = (case submit_request type_error toString outcome of
                    Inr data \<Rightarrow> s1\<lparr>result := nullable data\<rparr>
                  | Inl err \<Rightarrow> s1\<lparr>error := Some (message_or err ''Import failed'')\<rparr>)
        in s2\<lparr>loading := False\<rparr>)"

section \<open>The auth controller (AuthContext.tsx, AuthProvider)\<close>

text \<open>
  The state of the provider is its React state (\<open>user\<close>, \<open>isLoading\<close>) together with the
  browser's \<open>localStorage\<close>: the stored map, and the trace of the \<open>setItem\<close> and
  \<open>removeItem\<close> calls made so far, so that what an operation writes or removes can be read
  off. \<open>query_stripped\<close> records the call of \<open>history.replaceState\<close>. Console output is not
  part of the state. The type \<open>'u\<close> is the type of parsed JSON values other than \<open>null\<close>;
  \<open>JSON.parse\<close> and \<open>JSON.stringify\<close> are the parameters \<open>parse\<close> and \<open>stringify\<close>, and
  a parsed \<open>null\<close> is \<open>None\<close>, as the user that is \<open>null\<close> is.
\<close>

datatype storage_op = SetItem string string | RemoveItem string

record 'u AuthState =
  user :: "'u option"
  isLoading :: bool
  storage :: "string \<rightharpoonup> string"
  trace :: "storage_op list"
  query_stripped :: bool

definition setItem :: "string \<Rightarrow> string \<Rightarrow> 'u AuthState \<Rightarrow> 'u AuthState" where
  "setItem k v s = s\<lparr>storage := (storage s)(k \<mapsto> v), trace := trace s @ [SetItem k v]\<rparr>"

definition removeItem :: "string \<Rightarrow> 'u AuthState \<Rightarrow> 'u AuthState" where
  "removeItem k s = s\<lparr>storage := (storage s)(k := None), trace := trace s @ [RemoveItem k]\<rparr>"

definition truthy :: "string option \<Rightarrow> bool" where
  \<comment> \<open>A string or null in a condition: null and the empty string are falsy.\<close>
  "truthy v = (case v of None \<Rightarrow> False | Some x \<Rightarrow> x \<noteq> [])"

definition get_param :: "(string \<times> string) list \<Rightarrow> string \<Rightarrow> string option" where
  \<comment> \<open>\<open>URLSearchParams.get\<close>: the first value of the name, or null.\<close>
  "get_param params k = map_of params k"

definition clear_storage :: "'u AuthState \<Rightarrow> 'u AuthState" where
  \<comment> \<open>The three \<open>removeItem\<close> calls that checkAuth (twice) and signOut make.\<close>
  "clear_storage s =
     removeItem ''google_token_expiry''
       (removeItem ''google_user_info'' (removeItem ''google_access_token'' s))"

definition checkAuth ::
  "(string \<Rightarrow> thrown + 'u option) \<Rightarrow> thrown + bool \<Rightarrow> 'u AuthState \<Rightarrow> 'u AuthState" where
  \<comment> \<open>The second argument is the outcome of the \<open>fetch\<close> of the userinfo endpoint: the
      value it rejects with, or \<open>response.ok\<close>.\<close>
  "checkAuth parse outcome s =
     (let token = storage s ''google_access_token'';
          userInfo = storage s ''google_user_info'';
          s1 = (if truthy token \<and> truthy userInfo then
                  (case outcome of
                     Inl err \<Rightarrow> clear_storage s
                   | Inr response_ok \<Rightarrow>
                       if response_ok then
                         (case userInfo of
                            None \<Rightarrow> s
                          | Some str \<Rightarrow>
                              (case parse str of
                                 Inl err \<Rightarrow> clear_storage s
                               | Inr u \<Rightarrow> s\<lparr>user := u\<rparr>))
                       else clear_storage s)
                else s)
      in s1\<lparr>isLoading := False\<rparr>)"

definition handleOAuthCallback_try ::
  "(string \<Rightarrow> thrown + 'u option) \<Rightarrow> ('u option \<Rightarrow> string) \<Rightarrow> (string \<times> string) list \<Rightarrow>
   'u AuthState \<Rightarrow> thrown + 'u AuthState" where
  \<comment> \<open>The \<open>try\<close> block of handleOAuthCallback: the state it reaches, or the value it
      throws (both throws come before the first write).\<close>
  "handleOAuthCallback_try parse stringify params s =
     (let accessToken = get_param params ''access_token'';
          expiry = get_param params ''expiry'';
          userJson = get_param params ''user''
      in case (accessToken, userJson) of
           (Some token, Some str) \<Rightarrow>
             if token = [] \<or> str = [] then Inl (Error ''Missing authentication data'')
             else
               (case parse str of
                  Inl err \<Rightarrow> Inl err
                | Inr userData \<Rightarrow>
                    let s2 = setItem ''google_access_token'' token s;
                        s3 = setItem ''google_user_info'' (stringify userData) s2;
                        s4 = (case expiry of
                                None \<Rightarrow> s3
                              | Some e \<Rightarrow>
                                  if e = [] then s3
                                  else setItem ''google_token_expiry'' e s3)
                    in Inr (s4\<lparr>user := userData, query_stripped := True\<rparr>))
         | _ \<Rightarrow> Inl (Error ''Missing authentication data''))"

definition handleOAuthCallback ::
  "(string \<Rightarrow> thrown + 'u option) \<Rightarrow> ('u option \<Rightarrow> string) \<Rightarrow> (string \<times> string) list \<Rightarrow>
   'u AuthState \<Rightarrow> 'u AuthState" where
  \<comment> \<open>The \<open>catch\<close> block only logs; the \<open>finally\<close> block ends the loading state.\<close>
  "handleOAuthCallback parse stringify params s =
     (let s1 = (case handleOAuthCallback_try parse stringify params s of
                  Inl err \<Rightarrow> s
                | Inr s' \<Rightarrow> s')
      in s1\<lparr>isLoading := False\<rparr>)"

definition signOut :: "'u AuthState \<Rightarrow> 'u AuthState" where
  "signOut s = (clear_storage s)\<lparr>user := None\<rparr>"

definition getAccessToken :: "'u AuthState \<Rightarrow> string option" where
  "getAccessToken s = storage s ''google_access_token''"

definition on_mount ::
  "(string \<Rightarrow> thrown + 'u option) \<Rightarrow> ('u option \<Rightarrow> string) \<Rightarrow> (string \<times> string) list \<Rightarrow>
   thrown + bool \<Rightarrow>
   'u AuthState \<Rightarrow> 'u AuthState" where
  \<comment> \<open>The effect run once when the provider mounts, on the query parameters of the page.\<close>
  "on_mount parse stringify params outcome s =
     (let accessToken = get_param params ''access_token'';
          authError = get_param params ''auth_error''
      in if truthy authError then s\<lparr>isLoading := False, query_stripped := True\<rparr>
         else if truthy accessToken then handleOAuthCallback parse stringify params s
         else checkAuth parse outcome s)"

definition initial :: "(string \<rightharpoonup> string) \<Rightarrow> 'u AuthState" where
  \<comment> \<open>The state when the provider mounts, on a given content of localStorage.\<close>
  "initial store =
     \<lparr>user = None, isLoading = True, storage = store, trace = [], query_stripped = False\<rparr>"

definition written :: "storage_op list \<Rightarrow> string set" where
  "written ops = {k. \<exists>v. SetItem k v \<in> set ops}"

definition removed :: "storage_op list \<Rightarrow> string set" where
  "removed ops = {k. RemoveItem k \<in> set ops}"

definition performed :: "'u AuthState \<Rightarrow> 'u AuthState \<Rightarrow> storage_op list" where
  \<comment> \<open>The storage calls made between a state and a later one.\<close>
  "performed s s' = drop (length (trace s)) (trace s')"

definition persisted_keys :: "string set" where
  "persisted_keys = {''google_access_token'', ''google_user_info'', ''google_token_expiry''}"

section \<open>Facts about the string operations\<close>

lemma split_on_not_Nil: "split_on sep s \<noteq> []"
  by (induction s) (auto split: list.splits)

lemma split_on_no_sep: "sep \<notin> set s \<Longrightarrow> split_on sep s = [s]"
  by (induction s) auto

lemma length_split_on: "length (split_on sep s) = Suc (length (filter (\<lambda>c. c = sep) s))"
  by (induction s) (auto split: list.splits simp: split_on_not_Nil)

lemma set_trimStart: "set (trimStart s) \<subseteq> set s"
  unfolding trimStart_def by (auto dest: set_dropWhileD)

lemma set_trimEnd: "set (trimEnd s) \<subseteq> set s"
  unfolding trimEnd_def by (auto dest: set_dropWhileD)

lemma set_trim: "set (trim s) \<subseteq> set s"
  unfolding trim_def using set_trimStart set_trimEnd by blast

lemma no_quote_in_split_row: "s \<in> set (split_row line) \<Longrightarrow> CHR 0x22 \<notin> set s"
  by (auto simp: split_row_def remove_quotes_def)

lemma findIndex_ge: "- 1 \<le> findIndex p xs"
  by (induction xs) (auto simp: Let_def)

lemma findIndex_none: "findIndex p xs = - 1 \<longleftrightarrow> \<not> (\<exists>x \<in> set xs. p x)"
proof (induction xs)
  case Nil
  show ?case by simp
next
  case (Cons x xs)
  have "findIndex p xs + 1 \<noteq> - 1"
    using findIndex_ge[of p xs] by linarith
  with Cons show ?case by (auto simp: Let_def)
qed

lemma findIndex_found:
  assumes "\<exists>x \<in> set xs. p x"
  shows "0 \<le> findIndex p xs \<and> nat (findIndex p xs) < length xs \<and>
         p (xs ! nat (findIndex p xs)) \<and> (\<forall>j < nat (findIndex p xs). \<not> p (xs ! j))"
  using assms
proof (induction xs)
  case Nil
  then show ?case by simp
next
  case (Cons x xs)
  show ?case
  proof (cases "p x")
    case True
    then show ?thesis by simp
  next
    case False
    with Cons.prems have ex: "\<exists>y \<in> set xs. p y" by auto
    then have ne: "findIndex p xs \<noteq> - 1" by (simp add: findIndex_none)
    from Cons.IH[OF ex] have ih: "0 \<le> findIndex p xs" "nat (findIndex p xs) < length xs"
      "p (xs ! nat (findIndex p xs))" "\<forall>j < nat (findIndex p xs). \<not> p (xs ! j)"
      by auto
    have n: "nat (findIndex p xs + 1) = Suc (nat (findIndex p xs))"
      using ih(1) by simp
    have "\<forall>j < Suc (nat (findIndex p xs)). \<not> p ((x # xs) ! j)"
      using False ih(4) by (auto simp: less_Suc_eq_0_disj)
    then show ?thesis
      using False ne ih n by (simp add: Let_def)
  qed
qed

lemma at_index_in_set: "at_index xs i = Some x \<Longrightarrow> x \<in> set xs"
  by (auto simp: at_index_def split: if_splits)

lemma at_index_short: "0 \<le> i \<Longrightarrow> length xs \<le> nat i \<Longrightarrow> at_index xs i = None"
  by (simp add: at_index_def)

lemmas number_eval = parseFloat_def unsigned_literal_def negate_def starts_with_def
  isDigit_def exponent_part_def digits_value_def to_double_def ilog2_def round_half_even_def
  pow2_def Let_def compute_bitlen trimStart_def isWhiteSpace_def

lemma parseFloat_undefined: "parseFloat None = NaN"
  by (simp add: number_eval)

section \<open>The parser as a filter over the data rows\<close>

text \<open>
  The loop pushes, in row order, one transaction for each row from index \<open>i\<close> on whose
  amount is below zero.
\<close>

lemma rows_loop_eq:
  "rows_loop lines d n a i acc =
     acc @ map (\<lambda>line. \<lparr>date = at_index (split_row line) d, name = at_index (split_row line) n,
                         amount = parseFloat (at_index (split_row line) a)\<rparr>)
             (filter (\<lambda>line. lt_zero (parseFloat (at_index (split_row line) a))) (drop i lines))"
proof (induction lines d n a i acc rule: rows_loop.induct)
  case (1 lines d n a i acc)
  show ?case
  proof (cases "i < length lines")
    case True
    then have dr: "drop i lines = lines ! i # drop (Suc i) lines"
      by (simp add: Cons_nth_drop_Suc)
    show ?thesis
      using True "1.IH"[OF True refl refl]
      by (subst rows_loop.simps) (simp add: dr Let_def)
  next
    case False
    then show ?thesis by (subst rows_loop.simps) simp
  qed
qed

lemma parseCSV_eq:
  "parseCSV text =
     (if length (text_lines text) < 2 then Inr []
      else if column ''date'' text = - 1 \<or> column ''name'' text = - 1 \<or> column ''amount'' text = - 1
      then Inl (Error ''CSV must have Date, Name, and Amount columns'')
      else Inr (map (row_transaction text)
                 (filter (\<lambda>line. lt_zero (row_amount text line)) (data_rows text))))"
proof -
  have hd0: "text_lines text ! 0 = hd (text_lines text)"
    using split_on_not_Nil[of "CHR 0x0A" "trim text"]
    by (simp add: text_lines_def hd_conv_nth)
  have dr: "drop 1 (text_lines text) = data_rows text"
    by (simp add: data_rows_def drop_Suc)
  show ?thesis
    unfolding parseCSV_def Let_def rows_loop_eq
    using hd0 dr
    by (simp add: text_lines_def[symmetric] column_def header_fields_def row_transaction_def
        row_amount_def del: One_nat_def)
qed

lemma column_none: "column h text = - 1 \<longleftrightarrow> \<not> has_header h text"
  by (simp add: column_def has_header_def findIndex_none)

lemma column_nonneg: "has_header h text \<Longrightarrow> 0 \<le> column h text"
  using findIndex_ge[of "\<lambda>x. toLowerCase x = h" "header_fields text"] column_none[of h "text"]
  by (simp add: column_def)

section \<open>Claim C1: the result is the negative rows, in order\<close>

lemma ledger_lines:
  "text_lines ''amount, NAME ,Date\<newline>-12.5,Rent,03/01\<newline>abc,Gift,03/02\<newline>-7\<newline>0,Zero,03/03\<newline>-2e1,Books,03/04\<newline>'' =
     [''amount, NAME ,Date'', ''-12.5,Rent,03/01'', ''abc,Gift,03/02'', ''-7'', ''0,Zero,03/03'',
      ''-2e1,Books,03/04'']"
  by code_simp

lemma ledger_columns:
  "column ''date'' ''amount, NAME ,Date\<newline>-12.5,Rent,03/01\<newline>abc,Gift,03/02\<newline>-7\<newline>0,Zero,03/03\<newline>-2e1,Books,03/04\<newline>'' = 2"
  "column ''name'' ''amount, NAME ,Date\<newline>-12.5,Rent,03/01\<newline>abc,Gift,03/02\<newline>-7\<newline>0,Zero,03/03\<newline>-2e1,Books,03/04\<newline>'' = 1"
  "column ''amount'' ''amount, NAME ,Date\<newline>-12.5,Rent,03/01\<newline>abc,Gift,03/02\<newline>-7\<newline>0,Zero,03/03\<newline>-2e1,Books,03/04\<newline>'' = 0"
  by code_simp+

lemma ledger_rows:
  "split_row ''-12.5,Rent,03/01'' = [''-12.5'', ''Rent'', ''03/01'']"
  "split_row ''abc,Gift,03/02'' = [''abc'', ''Gift'', ''03/02'']"
  "split_row ''-7'' = [''-7'']"
  "split_row ''0,Zero,03/03'' = [''0'', ''Zero'', ''03/03'']"
  "split_row ''-2e1,Books,03/04'' = [''-2e1'', ''Books'', ''03/04'']"
  by code_simp+

lemma ledger_amounts:
  "parseFloat (Some ''-12.5'') = Finite (- 25 / 2)"
  "parseFloat (Some ''abc'') = NaN"
  "parseFloat (Some ''-7'') = Finite (- 7)"
  "parseFloat (Some ''0'') = Finite 0"
  "parseFloat (Some ''-2e1'') = Finite (- 20)"
  by (simp_all add: number_eval)

lemma parseCSV_ledger:
  "parseCSV ''amount, NAME ,Date\<newline>-12.5,Rent,03/01\<newline>abc,Gift,03/02\<newline>-7\<newline>0,Zero,03/03\<newline>-2e1,Books,03/04\<newline>'' =
     Inr [\<lparr>date = Some ''03/01'', name = Some ''Rent'', amount = Finite (- 25 / 2)\<rparr>,
          \<lparr>date = None, name = None, amount = Finite (- 7)\<rparr>,
          \<lparr>date = Some ''03/04'', name = Some ''Books'', amount = Finite (- 20)\<rparr>]"
  by (simp add: parseCSV_eq ledger_lines ledger_columns ledger_rows ledger_amounts
      data_rows_def row_transaction_def row_amount_def at_index_def lt_zero_def)

text \<open>
  Claim C1. Whenever parseCSV returns, the sequence it returns is the data rows (the lines
  after the header) whose amount field parses to a number below zero, each turned into its
  transaction, in the order of the rows: it is a subsequence of the rows' transactions, and
  no returned amount is NaN, zero or positive.
\<close>

theorem parseCSV_negative_rows_in_order:
  assumes "parseCSV text = Inr txs"
  shows "txs = map (row_transaction text)
                 (filter (\<lambda>line. lt_zero (row_amount text line)) (data_rows text))
       \<and> subseq txs (map (row_transaction text) (data_rows text))
       \<and> (\<forall>t \<in> set txs. lt_zero (amount t) \<and> amount t \<noteq> NaN)"
proof -
  let ?keep = "filter (\<lambda>line. lt_zero (row_amount text line)) (data_rows text)"
  have eq: "txs = map (row_transaction text) ?keep"
  proof (cases "length (text_lines text) < 2")
    case True
    then have "data_rows text = []"
      by (cases "text_lines text") (auto simp: data_rows_def)
    with True assms show ?thesis by (simp add: parseCSV_eq)
  next
    case False
    with assms show ?thesis by (auto simp: parseCSV_eq split: if_splits)
  qed
  have sub: "subseq (map (row_transaction text) ?keep) (map (row_transaction text) (data_rows text))"
    by (intro subseq_map subseq_filter_left)
  have neg: "\<forall>t \<in> set (map (row_transaction text) ?keep). lt_zero (amount t) \<and> amount t \<noteq> NaN"
    by (auto simp: row_transaction_def lt_zero_def)
  from eq sub neg show ?thesis by simp
qed

text \<open>
  An input with the columns in another order, a non-numeric amount, a zero amount and a row
  of one field: three rows are kept, in row order, the short one with undefined date and name.
\<close>

theorem parseCSV_negative_rows_in_order_witness:
  "parseCSV ''amount, NAME ,Date\<newline>-12.5,Rent,03/01\<newline>abc,Gift,03/02\<newline>-7\<newline>0,Zero,03/03\<newline>-2e1,Books,03/04\<newline>'' =
     Inr [\<lparr>date = Some ''03/01'', name = Some ''Rent'', amount = Finite (- 25 / 2)\<rparr>,
          \<lparr>date = None, name = None, amount = Finite (- 7)\<rparr>,
          \<lparr>date = Some ''03/04'', name = Some ''Books'', amount = Finite (- 20)\<rparr>]
   \<and> subseq [\<lparr>date = Some ''03/01'', name = Some ''Rent'', amount = Finite (- 25 / 2)\<rparr>,
          \<lparr>date = None, name = None, amount = Finite (- 7)\<rparr>,
          \<lparr>date = Some ''03/04'', name = Some ''Books'', amount = Finite (- 20)\<rparr>]
        (map (row_transaction ''amount, NAME ,Date\<newline>-12.5,Rent,03/01\<newline>abc,Gift,03/02\<newline>-7\<newline>0,Zero,03/03\<newline>-2e1,Books,03/04\<newline>'')
          (data_rows ''amount, NAME ,Date\<newline>-12.5,Rent,03/01\<newline>abc,Gift,03/02\<newline>-7\<newline>0,Zero,03/03\<newline>-2e1,Books,03/04\<newline>''))"
  using parseCSV_negative_rows_in_order[OF parseCSV_ledger] parseCSV_ledger by blast

section \<open>Claim C2: a missing header\<close>

lemma lower_Date_Amount: "toLowerCase ''Date'' = ''date''" "toLowerCase ''Amount'' = ''amount''"
  by code_simp+

lemma one_line_lines: "text_lines ''Date,Amount'' = [''Date,Amount'']"
  by code_simp

lemma one_line_header: "header_fields ''Date,Amount'' = [''Date'', ''Amount'']"
  by code_simp

lemma two_line_lines:
  "text_lines ''Date,Amount\<newline>01/01/2024,-5'' = [''Date,Amount'', ''01/01/2024,-5'']"
  by code_simp

lemma two_line_header: "header_fields ''Date,Amount\<newline>01/01/2024,-5'' = [''Date'', ''Amount'']"
  by code_simp

lemma two_line_no_name: "\<not> has_header ''name'' ''Date,Amount\<newline>01/01/2024,-5''"
  by (simp add: has_header_def two_line_header lower_Date_Amount)

lemma two_line_date: "has_header ''date'' ''Date,Amount\<newline>01/01/2024,-5''"
  by (simp add: has_header_def two_line_header lower_Date_Amount)

text \<open>
  Claim C2, as the code has it. The check of the headers comes after the check of the number
  of lines, so it is reached only by a text of at least two lines (after trimming). For
  such a text parseCSV throws exactly when one of the names \<open>date\<close>, \<open>name\<close>, \<open>amount\<close>
  is not, in lower case, among the header fields; what it throws is the error with the
  message below; and the column of a header name that is present is the first position
  where it occurs, wherever that is.
\<close>

theorem parseCSV_missing_header:
  assumes "2 \<le> length (text_lines text)"
  shows "((\<exists>e. parseCSV text = Inl e) \<longleftrightarrow>
            \<not> (has_header ''date'' text \<and> has_header ''name'' text \<and> has_header ''amount'' text))
       \<and> (parseCSV text = Inl e \<longrightarrow> e = Error ''CSV must have Date, Name, and Amount columns'')
       \<and> (has_header h text \<longrightarrow>
            0 \<le> column h text \<and> nat (column h text) < length (header_fields text) \<and>
            toLowerCase (header_fields text ! nat (column h text)) = h \<and>
            (\<forall>j < nat (column h text). toLowerCase (header_fields text ! j) \<noteq> h))"
proof -
  have a: "(\<exists>e. parseCSV text = Inl e) \<longleftrightarrow>
            \<not> (has_header ''date'' text \<and> has_header ''name'' text \<and> has_header ''amount'' text)"
    using assms by (auto simp: parseCSV_eq column_none)
  have b: "parseCSV text = Inl e \<longrightarrow> e = Error ''CSV must have Date, Name, and Amount columns''"
    by (auto simp: parseCSV_eq split: if_splits)
  have c: "has_header h text \<longrightarrow>
            0 \<le> column h text \<and> nat (column h text) < length (header_fields text) \<and>
            toLowerCase (header_fields text ! nat (column h text)) = h \<and>
            (\<forall>j < nat (column h text). toLowerCase (header_fields text ! j) \<noteq> h)"
    unfolding has_header_def column_def
    using findIndex_found[of "header_fields text" "\<lambda>x. toLowerCase x = h"] by blast
  from a b c show ?thesis by blast
qed

text \<open>A text of two lines with no \<open>name\<close> header: the error is thrown, and \<open>date\<close> is column 0.\<close>

theorem parseCSV_missing_header_witness:
  "2 \<le> length (text_lines ''Date,Amount\<newline>01/01/2024,-5'')
   \<and> parseCSV ''Date,Amount\<newline>01/01/2024,-5'' =
       Inl (Error ''CSV must have Date, Name, and Amount columns'')
   \<and> column ''date'' ''Date,Amount\<newline>01/01/2024,-5'' = 0"
proof -
  let ?t = "''Date,Amount\<newline>01/01/2024,-5''"
  have two: "2 \<le> length (text_lines ?t)"
    by (simp add: two_line_lines)
  have inst: "\<And>e. ((\<exists>e. parseCSV ?t = Inl e) \<longleftrightarrow>
            \<not> (has_header ''date'' ?t \<and> has_header ''name'' ?t \<and> has_header ''amount'' ?t))
       \<and> (parseCSV ?t = Inl e \<longrightarrow> e = Error ''CSV must have Date, Name, and Amount columns'')
       \<and> (has_header ''date'' ?t \<longrightarrow>
            0 \<le> column ''date'' ?t \<and> nat (column ''date'' ?t) < length (header_fields ?t) \<and>
            toLowerCase (header_fields ?t ! nat (column ''date'' ?t)) = ''date'' \<and>
            (\<forall>j < nat (column ''date'' ?t). toLowerCase (header_fields ?t ! j) \<noteq> ''date''))"
    using parseCSV_missing_header[OF two, where h = "''date''"] by blast
  from inst two_line_no_name obtain e where e: "parseCSV ?t = Inl e" by blast
  with inst have 1: "parseCSV ?t = Inl (Error ''CSV must have Date, Name, and Amount columns'')"
    by blast
  from inst two_line_date have c: "0 \<le> column ''date'' ?t"
    "\<forall>j < nat (column ''date'' ?t). toLowerCase (header_fields ?t ! j) \<noteq> ''date''"
    by blast+
  have "nat (column ''date'' ?t) = 0"
  proof (rule ccontr)
    assume "nat (column ''date'' ?t) \<noteq> 0"
    then have "0 < nat (column ''date'' ?t)" by simp
    with c(2) have "toLowerCase (header_fields ?t ! 0) \<noteq> ''date''" by blast
    then show False by (simp add: two_line_header lower_Date_Amount)
  qed
  with c(1) have 2: "column ''date'' ?t = 0" by simp
  from two 1 2 show ?thesis by blast
qed

text \<open>
  The claim as stated fails on a text of one line: the header row \<open>Date,Amount\<close> has no
  \<open>name\<close> header, and parseCSV returns the empty sequence instead of throwing.
\<close>

theorem parseCSV_missing_header_counterexample:
  "\<not> has_header ''name'' ''Date,Amount'' \<and> parseCSV ''Date,Amount'' = Inr []"
  by (simp add: has_header_def one_line_header lower_Date_Amount parseCSV_eq one_line_lines)

section \<open>Claim C3: the scenario of the specification\<close>

lemma statement_lines:
  "text_lines ''Date,Name,Amount\<newline>01/01/2024,Coffee Shop,-4.50\<newline>01/02/2024,Paycheck,1500.00'' =
     [''Date,Name,Amount'', ''01/01/2024,Coffee Shop,-4.50'', ''01/02/2024,Paycheck,1500.00'']"
  by code_simp

lemma statement_columns:
  "column ''date'' ''Date,Name,Amount\<newline>01/01/2024,Coffee Shop,-4.50\<newline>01/02/2024,Paycheck,1500.00'' = 0"
  "column ''name'' ''Date,Name,Amount\<newline>01/01/2024,Coffee Shop,-4.50\<newline>01/02/2024,Paycheck,1500.00'' = 1"
  "column ''amount'' ''Date,Name,Amount\<newline>01/01/2024,Coffee Shop,-4.50\<newline>01/02/2024,Paycheck,1500.00'' = 2"
  by code_simp+

lemma statement_rows:
  "split_row ''01/01/2024,Coffee Shop,-4.50'' = [''01/01/2024'', ''Coffee Shop'', ''-4.50'']"
  "split_row ''01/02/2024,Paycheck,1500.00'' = [''01/02/2024'', ''Paycheck'', ''1500.00'']"
  by code_simp+

lemma statement_amounts:
  "parseFloat (Some ''-4.50'') = Finite (- 9 / 2)"
  "parseFloat (Some ''1500.00'') = Finite 1500"
  by (simp_all add: number_eval)

text \<open>
  Claim C3. On the text of the scenario parseCSV returns exactly one transaction: date
  \<open>01/01/2024\<close>, name \<open>Coffee Shop\<close>, amount -4.5 (the double that \<open>-4.50\<close> denotes, which
  is exact).
\<close>

theorem parseCSV_scenario:
  "parseCSV ''Date,Name,Amount\<newline>01/01/2024,Coffee Shop,-4.50\<newline>01/02/2024,Paycheck,1500.00'' =
     Inr [\<lparr>date = Some ''01/01/2024'', name = Some ''Coffee Shop'', amount = Finite (- 9 / 2)\<rparr>]"
  by (simp add: parseCSV_eq statement_lines statement_columns statement_rows statement_amounts
      data_rows_def row_transaction_def row_amount_def at_index_def lt_zero_def)

section \<open>Claim C4: how a field is read\<close>

lemma diner_lines:
  \<open>text_lines ''Date,Name,Amount\<newline>01/01/2024,Joe"s Diner,-4.50'' =
     [''Date,Name,Amount'', ''01/01/2024,Joe"s Diner,-4.50'']\<close>
  by code_simp

lemma diner_columns:
  \<open>column ''date'' ''Date,Name,Amount\<newline>01/01/2024,Joe"s Diner,-4.50'' = 0\<close>
  \<open>column ''name'' ''Date,Name,Amount\<newline>01/01/2024,Joe"s Diner,-4.50'' = 1\<close>
  \<open>column ''amount'' ''Date,Name,Amount\<newline>01/01/2024,Joe"s Diner,-4.50'' = 2\<close>
  by code_simp+

lemma diner_row:
  \<open>split_row ''01/01/2024,Joe"s Diner,-4.50'' = [''01/01/2024'', ''Joes Diner'', ''-4.50'']\<close>
  by code_simp

lemma quoted_lines:
  \<open>text_lines ''"Date","Name","Amount"\<newline>"01/03/2024","Book ""Store""","-12.00"'' =
     [''"Date","Name","Amount"'', ''"01/03/2024","Book ""Store""","-12.00"'']\<close>
  by code_simp

lemma quoted_columns:
  \<open>column ''date'' ''"Date","Name","Amount"\<newline>"01/03/2024","Book ""Store""","-12.00"'' = 0\<close>
  \<open>column ''name'' ''"Date","Name","Amount"\<newline>"01/03/2024","Book ""Store""","-12.00"'' = 1\<close>
  \<open>column ''amount'' ''"Date","Name","Amount"\<newline>"01/03/2024","Book ""Store""","-12.00"'' = 2\<close>
  by code_simp+

lemma quoted_row:
  \<open>split_row ''"01/03/2024","Book ""Store""","-12.00"'' =
     [''01/03/2024'', ''Book Store'', ''-12.00'']\<close>
  by code_simp

lemma quoted_amount: "parseFloat (Some ''-12.00'') = Finite (- 12)"
  by (simp add: number_eval)

lemma parseCSV_quoted:
  \<open>parseCSV ''"Date","Name","Amount"\<newline>"01/03/2024","Book ""Store""","-12.00"'' =
     Inr [\<lparr>date = Some ''01/03/2024'', name = Some ''Book Store'', amount = Finite (- 12)\<rparr>]\<close>
  by (simp add: parseCSV_eq quoted_lines quoted_columns quoted_row quoted_amount
      data_rows_def row_transaction_def row_amount_def at_index_def lt_zero_def)

text \<open>
  Claim C4, as the code has it. The header fields are the fields of the first line, and the
  fields of a line are its pieces between commas, each trimmed of surrounding white space
  and then stripped of every double quote it contains, the embedded ones too. So no date
  or name of a returned transaction contains a double quote, and each is a field of some
  data row.
\<close>

theorem split_row_removes_every_quote:
  "header_fields text = split_row (hd (text_lines text))
   \<and> split_row line = map (\<lambda>raw. filter (\<lambda>c. c \<noteq> CHR 0x22) (trim raw)) (split_on CHR '','' line)
   \<and> (parseCSV text = Inr txs \<longrightarrow>
        (\<forall>t \<in> set txs. \<forall>s. date t = Some s \<or> name t = Some s \<longrightarrow>
           CHR 0x22 \<notin> set s \<and> (\<exists>line \<in> set (data_rows text). s \<in> set (split_row line))))"
proof -
  have c: "parseCSV text = Inr txs \<longrightarrow>
        (\<forall>t \<in> set txs. \<forall>s. date t = Some s \<or> name t = Some s \<longrightarrow>
           CHR 0x22 \<notin> set s \<and> (\<exists>line \<in> set (data_rows text). s \<in> set (split_row line)))"
  proof (intro impI ballI allI)
    fix t s
    assume p: "parseCSV text = Inr txs" and t: "t \<in> set txs"
      and s: "date t = Some s \<or> name t = Some s"
    from p have "set txs \<subseteq> row_transaction text ` set (data_rows text)"
      by (auto simp: parseCSV_eq split: if_splits)
    with t obtain line where l: "line \<in> set (data_rows text)" and tl: "t = row_transaction text line"
      by auto
    from s tl have "s \<in> set (split_row line)"
      by (auto simp: row_transaction_def dest: at_index_in_set)
    with l show "CHR 0x22 \<notin> set s \<and> (\<exists>line \<in> set (data_rows text). s \<in> set (split_row line))"
      using no_quote_in_split_row by blast
  qed
  show ?thesis
    using c by (simp add: header_fields_def split_row_def remove_quotes_def)
qed

text \<open>A file with every field in double quotes and doubled quotes inside the name.\<close>

theorem split_row_removes_every_quote_witness:
  \<open>parseCSV ''"Date","Name","Amount"\<newline>"01/03/2024","Book ""Store""","-12.00"'' =
     Inr [\<lparr>date = Some ''01/03/2024'', name = Some ''Book Store'', amount = Finite (- 12)\<rparr>]
   \<and> CHR 0x22 \<notin> set ''01/03/2024''
   \<and> CHR 0x22 \<notin> set ''Book Store''
   \<and> split_row ''"01/03/2024","Book ""Store""","-12.00"'' =
       map (\<lambda>raw. filter (\<lambda>c. c \<noteq> CHR 0x22) (trim raw))
         (split_on CHR '','' ''"01/03/2024","Book ""Store""","-12.00"'')\<close>
proof -
  let ?tx = "\<lparr>date = Some ''01/03/2024'', name = Some ''Book Store'', amount = Finite (- 12)\<rparr>"
  note inst = split_row_removes_every_quote[where txs = "[?tx]"]
  have all: "\<forall>t \<in> set [?tx]. \<forall>s. date t = Some s \<or> name t = Some s \<longrightarrow> CHR 0x22 \<notin> set s"
    using inst[THEN conjunct2, THEN conjunct2, THEN mp, OF parseCSV_quoted] by blast
  have d: "CHR 0x22 \<notin> set ''01/03/2024''"
    using all by (metis Transaction.select_convs(1) list.set_intros(1))
  have n: "CHR 0x22 \<notin> set ''Book Store''"
    using all by (metis Transaction.select_convs(2) list.set_intros(1))
  from parseCSV_quoted d n inst[THEN conjunct2, THEN conjunct1] show ?thesis
    by blast
qed

text \<open>
  The claim as stated fails on a name with a double quote in the middle: the quote of
  \<open>Joe"s Diner\<close> is not preserved, the name of the transaction is \<open>Joes Diner\<close>.
\<close>

theorem split_row_removes_every_quote_counterexample:
  \<open>parseCSV ''Date,Name,Amount\<newline>01/01/2024,Joe"s Diner,-4.50'' =
     Inr [\<lparr>date = Some ''01/01/2024'', name = Some ''Joes Diner'', amount = Finite (- 9 / 2)\<rparr>]\<close>
  by (simp add: parseCSV_eq diner_lines diner_columns diner_row statement_amounts
      data_rows_def row_transaction_def row_amount_def at_index_def lt_zero_def)

section \<open>Claim C5: fewer than two lines\<close>

text \<open>
  Claim C5. A text that has fewer than two lines, whether the lines are counted before or
  after the trimming that parseCSV does, gives the empty sequence: parseCSV does not throw,
  whatever the one line holds.
\<close>

theorem parseCSV_fewer_than_two_lines:
  assumes "length (split_on CHR 0x0A text) < 2 \<or> length (text_lines text) < 2"
  shows "parseCSV text = Inr []"
proof -
  have "length (text_lines text) < 2"
    using assms
  proof
    assume "length (split_on CHR 0x0A text) < 2"
    then have "filter (\<lambda>c. c = CHR 0x0A) text = []"
      by (simp add: length_split_on)
    then have "CHR 0x0A \<notin> set text"
      by (auto simp: filter_empty_conv)
    then have "CHR 0x0A \<notin> set (trim text)"
      using set_trim[of "text"] by blast
    then show ?thesis
      by (simp add: text_lines_def split_on_no_sep)
  qed
  then show ?thesis by (simp add: parseCSV_eq)
qed

theorem parseCSV_fewer_than_two_lines_witness:
  "length (split_on CHR 0x0A ''no header here'') < 2 \<and> parseCSV ''no header here'' = Inr []"
proof -
  have h: "length (split_on CHR 0x0A ''no header here'') < 2"
    by (simp add: length_split_on)
  then show ?thesis
    using parseCSV_fewer_than_two_lines[of "''no header here''"] by blast
qed

section \<open>Claim C10: no failure on a data row\<close>

lemma short_columns:
  "column ''date'' ''Id,Date,Name,Amount\<newline>7\<newline>\<newline>8,01/06,Tea,-3'' = 1"
  "column ''name'' ''Id,Date,Name,Amount\<newline>7\<newline>\<newline>8,01/06,Tea,-3'' = 2"
  "column ''amount'' ''Id,Date,Name,Amount\<newline>7\<newline>\<newline>8,01/06,Tea,-3'' = 3"
  by code_simp+

lemma short_row: "split_row ''7'' = [''7'']"
  by code_simp

lemma short_has_headers:
  "has_header ''date'' ''Id,Date,Name,Amount\<newline>7\<newline>\<newline>8,01/06,Tea,-3''"
  "has_header ''name'' ''Id,Date,Name,Amount\<newline>7\<newline>\<newline>8,01/06,Tea,-3''"
  "has_header ''amount'' ''Id,Date,Name,Amount\<newline>7\<newline>\<newline>8,01/06,Tea,-3''"
  using column_none[of "''date''" "''Id,Date,Name,Amount\<newline>7\<newline>\<newline>8,01/06,Tea,-3''"]
    column_none[of "''name''" "''Id,Date,Name,Amount\<newline>7\<newline>\<newline>8,01/06,Tea,-3''"]
    column_none[of "''amount''" "''Id,Date,Name,Amount\<newline>7\<newline>\<newline>8,01/06,Tea,-3''"]
  by (simp_all add: short_columns)

text \<open>
  Claim C10. When the three headers are present parseCSV returns a sequence, whatever the
  data rows are. The only value it ever throws is the error for a missing header, and then a
  header is missing. A row with too few fields to have an amount field has the amount NaN and
  is not kept; a row too short to have a date or a name field has that field undefined.
\<close>

theorem parseCSV_total_on_rows:
  "(has_header ''date'' text \<and> has_header ''name'' text \<and> has_header ''amount'' text
      \<longrightarrow> (\<exists>txs. parseCSV text = Inr txs))
   \<and> (parseCSV text = Inl e \<longrightarrow>
        e = Error ''CSV must have Date, Name, and Amount columns'' \<and>
        \<not> (has_header ''date'' text \<and> has_header ''name'' text \<and> has_header ''amount'' text))
   \<and> (has_header ''amount'' text \<and> length (split_row line) \<le> nat (column ''amount'' text)
      \<longrightarrow> row_amount text line = NaN \<and> \<not> lt_zero (row_amount text line))
   \<and> (has_header ''date'' text \<and> length (split_row line) \<le> nat (column ''date'' text)
      \<longrightarrow> date (row_transaction text line) = None)
   \<and> (has_header ''name'' text \<and> length (split_row line) \<le> nat (column ''name'' text)
      \<longrightarrow> name (row_transaction text line) = None)"
proof -
  note ge = column_nonneg
  have a: "has_header ''date'' text \<and> has_header ''name'' text \<and> has_header ''amount'' text
      \<longrightarrow> (\<exists>txs. parseCSV text = Inr txs)"
    by (simp add: parseCSV_eq column_none)
  have b: "parseCSV text = Inl e \<longrightarrow>
        e = Error ''CSV must have Date, Name, and Amount columns'' \<and>
        \<not> (has_header ''date'' text \<and> has_header ''name'' text \<and> has_header ''amount'' text)"
    by (auto simp: parseCSV_eq column_none split: if_splits)
  have c: "has_header ''amount'' text \<and> length (split_row line) \<le> nat (column ''amount'' text)
      \<longrightarrow> row_amount text line = NaN \<and> \<not> lt_zero (row_amount text line)"
    using ge[of "''amount''"]
    by (auto simp: row_amount_def at_index_short parseFloat_undefined lt_zero_def)
  have d: "has_header ''date'' text \<and> length (split_row line) \<le> nat (column ''date'' text)
      \<longrightarrow> date (row_transaction text line) = None"
    using ge[of "''date''"] by (auto simp: row_transaction_def at_index_short)
  have n: "has_header ''name'' text \<and> length (split_row line) \<le> nat (column ''name'' text)
      \<longrightarrow> name (row_transaction text line) = None"
    using ge[of "''name''"] by (auto simp: row_transaction_def at_index_short)
  from a b c d n show ?thesis by blast
qed

text \<open>
  A text whose second line has one field and whose third line is empty: parseCSV returns,
  the row of one field has no amount, date or name; and on the text with a missing header
  the thrown value is the error.
\<close>

theorem parseCSV_total_on_rows_witness:
  "(\<exists>txs. parseCSV ''Id,Date,Name,Amount\<newline>7\<newline>\<newline>8,01/06,Tea,-3'' = Inr txs)
   \<and> row_amount ''Id,Date,Name,Amount\<newline>7\<newline>\<newline>8,01/06,Tea,-3'' ''7'' = NaN
   \<and> date (row_transaction ''Id,Date,Name,Amount\<newline>7\<newline>\<newline>8,01/06,Tea,-3'' ''7'') = None
   \<and> name (row_transaction ''Id,Date,Name,Amount\<newline>7\<newline>\<newline>8,01/06,Tea,-3'' ''7'') = None
   \<and> parseCSV ''Date,Amount\<newline>01/01/2024,-5'' \<noteq> Inl NonError"
proof -
  let ?t = "''Id,Date,Name,Amount\<newline>7\<newline>\<newline>8,01/06,Tea,-3''"
  have len: "length (split_row ''7'') \<le> nat (column ''date'' ?t)"
    "length (split_row ''7'') \<le> nat (column ''name'' ?t)"
    "length (split_row ''7'') \<le> nat (column ''amount'' ?t)"
    by (simp_all add: short_row short_columns)
  show ?thesis
    using parseCSV_total_on_rows[of ?t NonError "''7''"]
      parseCSV_total_on_rows[of "''Date,Amount\<newline>01/01/2024,-5''" NonError "''7''"]
      short_has_headers len
    by blast
qed

section \<open>Claim C6: a file that is not a CSV file\<close>

lemma not_csv: "\<not> endsWith ''statement.txt'' ''.csv''"
  by (simp add: endsWith_def)

lemma is_csv: "endsWith ''january.csv'' ''.csv''"
  by (simp add: endsWith_def)

text \<open>
  Claim C6, as the code has it. For a file whose name does not end in \<open>.csv\<close>, handleFile
  sets the error text and changes nothing else: the selected file and the transaction list
  stay as they were. The list is empty afterwards when it was empty before.
\<close>

theorem handleFile_other_extension:
  assumes "\<not> endsWith (file_name f) ''.csv''"
  shows "handleFile f s = s\<lparr>error := Some ''Please upload a CSV file''\<rparr>
       \<and> error (handleFile f s) = Some ''Please upload a CSV file''
       \<and> transactions (handleFile f s) = transactions s
       \<and> file (handleFile f s) = file s"
  using assms by (simp add: handleFile_def)

text \<open>The scenario: \<open>statement.txt\<close> selected in the initial state.\<close>

theorem handleFile_other_extension_witness:
  "\<not> endsWith (file_name \<lparr>file_name = ''statement.txt'', file_text = Inr ''not a statement''\<rparr>) ''.csv''
   \<and> error (handleFile \<lparr>file_name = ''statement.txt'', file_text = Inr ''not a statement''\<rparr>
        (App_initial :: unit AppState)) = Some ''Please upload a CSV file''
   \<and> transactions (handleFile \<lparr>file_name = ''statement.txt'', file_text = Inr ''not a statement''\<rparr>
        (App_initial :: unit AppState)) = []"
proof -
  have h: "\<not> endsWith (file_name \<lparr>file_name = ''statement.txt'', file_text = Inr ''not a statement''\<rparr>) ''.csv''"
    by (simp add: not_csv)
  show ?thesis
    using h handleFile_other_extension[OF h, of "App_initial :: unit AppState"]
    by (simp add: App_initial_def)
qed

text \<open>
  The claim as stated fails when transactions were parsed before: after \<open>january.csv\<close> has
  been selected and parsed, selecting \<open>statement.txt\<close> leaves its three transactions in
  the list.
\<close>

theorem handleFile_other_extension_counterexample:
  "transactions
     (handleFile \<lparr>file_name = ''statement.txt'', file_text = Inr ''not a statement''\<rparr>
       (handleFile
         \<lparr>file_name = ''january.csv'',
          file_text = Inr ''amount, NAME ,Date\<newline>-12.5,Rent,03/01\<newline>abc,Gift,03/02\<newline>-7\<newline>0,Zero,03/03\<newline>-2e1,Books,03/04\<newline>''\<rparr>
         (App_initial :: unit AppState)))
   = [\<lparr>date = Some ''03/01'', name = Some ''Rent'', amount = Finite (- 25 / 2)\<rparr>,
      \<lparr>date = None, name = None, amount = Finite (- 7)\<rparr>,
      \<lparr>date = Some ''03/04'', name = Some ''Books'', amount = Finite (- 20)\<rparr>]"
  by (simp add: handleFile_def not_csv is_csv parseCSV_ledger App_initial_def)

section \<open>Claim C7: the error text of a rejected import\<close>

lemma rejected_error_text:
  assumes "file s \<noteq> None" and "transactions s \<noteq> []"
    and "\<not> ok res" and "json res = Inr body"
  shows "error (handleSubmit type_error toString (Inr res) s) =
     Some (case read_detail type_error body of
             Inl thrown \<Rightarrow> message_or thrown ''Import failed''
           | Inr detail \<Rightarrow>
               message_or (throw_new_Error toString (or_else detail (JString ''Import failed'')))
                 ''Import failed'')"
  using assms
  by (auto simp: handleSubmit_def submit_request_def Let_def split: sum.splits)

text \<open>
  Claim C7, as the code has it. A submission is made when a file is selected and the
  transaction list is not empty. When the response is not in the range 200-299 and its body
  parses as JSON:
  \<^item> a body that is an object whose \<open>detail\<close> is a non-empty string gives that string as
    the error text;
  \<^item> a body that is an object with no \<open>detail\<close>, or whose \<open>detail\<close> is the empty string,
    gives \<open>Import failed\<close>; so does every body other than \<open>null\<close> whose \<open>detail\<close> is
    undefined or falsy;
  \<^item> the body \<open>null\<close> makes the read of \<open>detail\<close> throw, and the error text is the
    message of that TypeError.
\<close>

theorem handleSubmit_rejected_error_text:
  assumes "file s \<noteq> None" and "transactions s \<noteq> []"
    and "\<not> ok res" and "json res = Inr body"
  shows "(\<forall>members d. body = JObject members \<and> member ''detail'' members = Some (JString d) \<and> d \<noteq> []
            \<longrightarrow> error (handleSubmit type_error toString (Inr res) s) = Some d)
       \<and> (\<forall>members. body = JObject members \<and>
            (member ''detail'' members = None \<or> member ''detail'' members = Some (JString []))
            \<longrightarrow> error (handleSubmit type_error toString (Inr res) s) = Some ''Import failed'')
       \<and> (\<forall>detail. read_detail type_error body = Inr detail \<and> \<not> truthy_value detail
            \<longrightarrow> error (handleSubmit type_error toString (Inr res) s) = Some ''Import failed'')
       \<and> (body = JNull
            \<longrightarrow> error (handleSubmit type_error toString (Inr res) s) = Some type_error)"
proof -
  note e = rejected_error_text[OF assms, of type_error toString]
  have a: "\<forall>members d. body = JObject members \<and> member ''detail'' members = Some (JString d) \<and> d \<noteq> []
            \<longrightarrow> error (handleSubmit type_error toString (Inr res) s) = Some d"
    by (simp add: e read_detail_def or_else_def truthy_value_def throw_new_Error_def
        message_or_def)
  have c: "\<forall>detail. read_detail type_error body = Inr detail \<and> \<not> truthy_value detail
            \<longrightarrow> error (handleSubmit type_error toString (Inr res) s) = Some ''Import failed''"
    by (auto simp: e or_else_def throw_new_Error_def message_or_def split: option.splits)
  have b: "\<forall>members. body = JObject members \<and>
            (member ''detail'' members = None \<or> member ''detail'' members = Some (JString []))
            \<longrightarrow> error (handleSubmit type_error toString (Inr res) s) = Some ''Import failed''"
  proof (intro allI impI)
    fix members
    assume m: "body = JObject members \<and>
            (member ''detail'' members = None \<or> member ''detail'' members = Some (JString []))"
    then have r: "read_detail type_error body = Inr (member ''detail'' members)"
      by (simp add: read_detail_def)
    from m have "\<not> truthy_value (member ''detail'' members)"
      by (auto simp: truthy_value_def)
    with c r show "error (handleSubmit type_error toString (Inr res) s) = Some ''Import failed''"
      by blast
  qed
  have d: "body = JNull
            \<longrightarrow> error (handleSubmit type_error toString (Inr res) s) = Some type_error"
    by (simp add: e read_detail_def message_or_def)
  from a b c d show ?thesis by blast
qed

text \<open>
  The scenario: status 500 with the body \<open>{"detail":"duplicate rows"}\<close>. With it, the
  bodies \<open>{}\<close> and \<open>null\<close>.
\<close>

theorem handleSubmit_rejected_error_text_witness:
  "\<not> ok (Response 500 (Inr (JObject [(''detail'', JString ''duplicate rows'')])))
   \<and> error
     (handleSubmit ''err is null'' (\<lambda>v. Inr ''[object Object]'')
       (Inr (Response 500 (Inr (JObject [(''detail'', JString ''duplicate rows'')]))))
       (App_initial\<lparr>file := Some \<lparr>file_name = ''january.csv'', file_text = Inr ''''\<rparr>,
          transactions := [\<lparr>date = Some ''01/01/2024'', name = Some ''Coffee Shop'',
                            amount = Finite (- 9 / 2)\<rparr>]\<rparr>))
     = Some ''duplicate rows''
   \<and> error
     (handleSubmit ''err is null'' (\<lambda>v. Inr ''[object Object]'')
       (Inr (Response 500 (Inr (JObject []))))
       (App_initial\<lparr>file := Some \<lparr>file_name = ''january.csv'', file_text = Inr ''''\<rparr>,
          transactions := [\<lparr>date = Some ''01/01/2024'', name = Some ''Coffee Shop'',
                            amount = Finite (- 9 / 2)\<rparr>]\<rparr>))
     = Some ''Import failed''
   \<and> error
     (handleSubmit ''err is null'' (\<lambda>v. Inr ''[object Object]'')
       (Inr (Response 500 (Inr JNull)))
       (App_initial\<lparr>file := Some \<lparr>file_name = ''january.csv'', file_text = Inr ''''\<rparr>,
          transactions := [\<lparr>date = Some ''01/01/2024'', name = Some ''Coffee Shop'',
                            amount = Finite (- 9 / 2)\<rparr>]\<rparr>))
     = Some ''err is null''"
proof -
  let ?s = "App_initial\<lparr>file := Some \<lparr>file_name = ''january.csv'', file_text = Inr ''''\<rparr>,
          transactions := [\<lparr>date = Some ''01/01/2024'', name = Some ''Coffee Shop'',
                            amount = Finite (- 9 / 2)\<rparr>]\<rparr> :: json_value AppState"
  let ?dup = "JObject [(''detail'', JString ''duplicate rows'')]"
  have 1: "file ?s \<noteq> None" and 2: "transactions ?s \<noteq> []"
    by simp_all
  have 3: "\<not> ok (Response 500 (Inr b))" for b :: json_value
    by (simp add: ok_def)
  have 4: "json (Response 500 (Inr b)) = Inr b" for b :: json_value
    by simp
  have m1: "member ''detail'' [(''detail'', JString ''duplicate rows'')] =
              Some (JString ''duplicate rows'')"
    by (simp add: member_def)
  have m2: "member ''detail'' [] = None"
    by (simp add: member_def)
  note t = handleSubmit_rejected_error_text[OF 1 2 3 4,
      where type_error = "''err is null''" and toString = "\<lambda>v. Inr ''[object Object]''"]
  have a: "error (handleSubmit ''err is null'' (\<lambda>v. Inr ''[object Object]'')
             (Inr (Response 500 (Inr ?dup))) ?s) = Some ''duplicate rows''"
    using t[of ?dup, THEN conjunct1] m1 by simp
  have b: "error (handleSubmit ''err is null'' (\<lambda>v. Inr ''[object Object]'')
             (Inr (Response 500 (Inr (JObject [])))) ?s) = Some ''Import failed''"
    using t[of "JObject []", THEN conjunct2, THEN conjunct1] m2 by simp
  have c: "error (handleSubmit ''err is null'' (\<lambda>v. Inr ''[object Object]'')
             (Inr (Response 500 (Inr JNull))) ?s) = Some ''err is null''"
    using t[of JNull, THEN conjunct2, THEN conjunct2, THEN conjunct2] by simp
  from 3[of ?dup] a b c show ?thesis by blast
qed

text \<open>
  The claim as stated fails on the body \<open>{"detail":""}\<close>: the body contains the field,
  and the error text is not that (empty) string but \<open>Import failed\<close>.
\<close>

theorem handleSubmit_rejected_error_text_counterexample:
  "error
     (handleSubmit ''err is null'' (\<lambda>v. Inr ''[object Object]'')
       (Inr (Response 500 (Inr (JObject [(''detail'', JString '''')]))))
       (App_initial\<lparr>file := Some \<lparr>file_name = ''january.csv'', file_text = Inr ''''\<rparr>,
          transactions := [\<lparr>date = Some ''01/01/2024'', name = Some ''Coffee Shop'',
                            amount = Finite (- 9 / 2)\<rparr>]\<rparr>))
   = Some ''Import failed''"
  by (simp add: handleSubmit_def submit_request_def ok_def read_detail_def member_def
      or_else_def truthy_value_def throw_new_Error_def message_or_def App_initial_def)

section \<open>Claim C8: a callback without the user profile\<close>

text \<open>
  Claim C8. When the query has an access token and no \<open>user\<close> parameter, the body of
  handleOAuthCallback throws the error \<open>Missing authentication data\<close>, and the handler
  only ends the loading state: the user is what it was (null at mount), the storage is
  unchanged and no key is written. The same holds for the whole effect at
  mount when the token is not empty, so that the handler is the branch taken.
\<close>

theorem handleOAuthCallback_missing_user:
  assumes "get_param params ''access_token'' = Some token"
    and "get_param params ''user'' = None"
  shows "handleOAuthCallback_try parse stringify params s =
           Inl (Error ''Missing authentication data'')
       \<and> handleOAuthCallback parse stringify params s = s\<lparr>isLoading := False\<rparr>
       \<and> user (handleOAuthCallback parse stringify params s) = user s
       \<and> storage (handleOAuthCallback parse stringify params s) = storage s
       \<and> written (performed s (handleOAuthCallback parse stringify params s)) = {}
       \<and> (token \<noteq> [] \<longrightarrow>
            user (on_mount parse stringify params outcome (initial store)) = None \<and>
            storage (on_mount parse stringify params outcome (initial store)) = store \<and>
            trace (on_mount parse stringify params outcome (initial store)) = [])"
proof -
  have t: "handleOAuthCallback_try parse stringify params s =
             Inl (Error ''Missing authentication data'')"
    using assms by (simp add: handleOAuthCallback_try_def)
  have h: "handleOAuthCallback parse stringify params s = s\<lparr>isLoading := False\<rparr>"
    for s :: "'a AuthState"
    using assms by (simp add: handleOAuthCallback_def handleOAuthCallback_try_def Let_def)
  have w: "written (performed s (s\<lparr>isLoading := False\<rparr>)) = {}"
    by (simp add: written_def performed_def)
  have m: "token \<noteq> [] \<longrightarrow>
            user (on_mount parse stringify params outcome (initial store)) = None \<and>
            storage (on_mount parse stringify params outcome (initial store)) = store \<and>
            trace (on_mount parse stringify params outcome (initial store)) = []"
    using assms(1) by (simp add: on_mount_def Let_def h truthy_def initial_def)
  show ?thesis
    using t w m by (simp add: h)
qed

theorem handleOAuthCallback_missing_user_witness:
  "get_param [(''access_token'', ''ya29.token'')] ''access_token'' = Some ''ya29.token''
   \<and> get_param [(''access_token'', ''ya29.token'')] ''user'' = None
   \<and> handleOAuthCallback_try (\<lambda>str. Inr (Some str))
        (\<lambda>u. case u of None \<Rightarrow> ''null'' | Some str \<Rightarrow> str) [(''access_token'', ''ya29.token'')]
        (initial Map.empty :: string AuthState)
      = Inl (Error ''Missing authentication data'')
   \<and> handleOAuthCallback (\<lambda>str. Inr (Some str))
        (\<lambda>u. case u of None \<Rightarrow> ''null'' | Some str \<Rightarrow> str) [(''access_token'', ''ya29.token'')]
        (initial Map.empty :: string AuthState)
      = (initial Map.empty)\<lparr>isLoading := False\<rparr>
   \<and> user (on_mount (\<lambda>str. Inr (Some str))
        (\<lambda>u. case u of None \<Rightarrow> ''null'' | Some str \<Rightarrow> str) [(''access_token'', ''ya29.token'')] (Inr True)
        (initial Map.empty :: string AuthState)) = None
   \<and> trace (on_mount (\<lambda>str. Inr (Some str))
        (\<lambda>u. case u of None \<Rightarrow> ''null'' | Some str \<Rightarrow> str) [(''access_token'', ''ya29.token'')] (Inr True)
        (initial Map.empty :: string AuthState)) = []"
proof -
  have 1: "get_param [(''access_token'', ''ya29.token'')] ''access_token'' = Some ''ya29.token''"
    by (simp add: get_param_def)
  have 2: "get_param [(''access_token'', ''ya29.token'')] ''user'' = None"
    by (simp add: get_param_def)
  show ?thesis
    using 1 2 handleOAuthCallback_missing_user[OF 1 2, of "\<lambda>str. Inr (Some str)"
        "\<lambda>u. case u of None \<Rightarrow> ''null'' | Some str \<Rightarrow> str"
        "initial Map.empty :: string AuthState" "Inr True" Map.empty]
    by simp
qed

section \<open>Claim C9: the three storage keys\<close>

lemma trace_clear_storage:
  "trace (clear_storage s) = trace s @ [RemoveItem ''google_access_token'',
     RemoveItem ''google_user_info'', RemoveItem ''google_token_expiry'']"
  by (simp add: clear_storage_def removeItem_def)

lemma removed_three:
  "removed [RemoveItem ''google_access_token'', RemoveItem ''google_user_info'',
     RemoveItem ''google_token_expiry''] = persisted_keys"
  by (auto simp: removed_def persisted_keys_def)

lemma trace_checkAuth:
  "trace (checkAuth parse outcome s) = trace s \<or>
   trace (checkAuth parse outcome s) = trace (clear_storage s)"
  by (simp add: checkAuth_def Let_def split: sum.splits option.splits)

lemma trace_handleOAuthCallback:
  "trace (handleOAuthCallback parse stringify params s) = trace s
   \<or> (\<exists>t u. trace (handleOAuthCallback parse stringify params s) =
        trace s @ [SetItem ''google_access_token'' t, SetItem ''google_user_info'' u]
        \<and> \<not> truthy (get_param params ''expiry''))
   \<or> (\<exists>t u e. trace (handleOAuthCallback parse stringify params s) =
        trace s @ [SetItem ''google_access_token'' t, SetItem ''google_user_info'' u,
                   SetItem ''google_token_expiry'' e]
        \<and> truthy (get_param params ''expiry''))"
  by (simp add: handleOAuthCallback_def handleOAuthCallback_try_def Let_def setItem_def
      truthy_def split: sum.splits option.splits)

lemma written_handleOAuthCallback:
  "written (performed s (handleOAuthCallback parse stringify params s)) =
     (case handleOAuthCallback_try parse stringify params s of
        Inl err \<Rightarrow> {}
      | Inr s' \<Rightarrow>
          if truthy (get_param params ''expiry'') then persisted_keys
          else {''google_access_token'', ''google_user_info''})"
  by (auto simp: handleOAuthCallback_def handleOAuthCallback_try_def Let_def setItem_def
      truthy_def performed_def written_def persisted_keys_def
      split: sum.splits option.splits if_splits)

lemma callback_without_expiry:
  "trace (handleOAuthCallback (\<lambda>str. Inr (Some str))
        (\<lambda>u. case u of None \<Rightarrow> ''null'' | Some str \<Rightarrow> str)
       [(''access_token'', ''ya29.token''), (''user'', ''{}'')]
       (initial Map.empty :: string AuthState))
   = [SetItem ''google_access_token'' ''ya29.token'', SetItem ''google_user_info'' ''{}'']"
  by (simp add: handleOAuthCallback_def handleOAuthCallback_try_def get_param_def setItem_def
      initial_def)

lemma callback_with_expiry:
  "trace (handleOAuthCallback (\<lambda>str. Inr (Some str))
        (\<lambda>u. case u of None \<Rightarrow> ''null'' | Some str \<Rightarrow> str)
       [(''access_token'', ''ya29.token''), (''expiry'', ''1767225600''), (''user'', ''{}'')]
       (initial Map.empty :: string AuthState))
   = [SetItem ''google_access_token'' ''ya29.token'', SetItem ''google_user_info'' ''{}'',
      SetItem ''google_token_expiry'' ''1767225600'']"
  by (simp add: handleOAuthCallback_def handleOAuthCallback_try_def get_param_def setItem_def
      initial_def)

text \<open>
  Claim C9, as the code has it. The three keys are removed together: signOut removes all
  three, checkAuth removes all three or none, and neither writes a key. handleOAuthCallback
  removes no key; it writes nothing when its body throws, and when the body succeeds it
  writes the token and the user profile together, and the expiry with them exactly when the
  \<open>expiry\<close> parameter is present and not empty.
\<close>

theorem storage_keys_written_and_removed:
  "removed (performed s (signOut s)) = persisted_keys
   \<and> written (performed s (signOut s)) = {}
   \<and> (removed (performed s (checkAuth parse outcome s)) = {} \<or>
      removed (performed s (checkAuth parse outcome s)) = persisted_keys)
   \<and> written (performed s (checkAuth parse outcome s)) = {}
   \<and> removed (performed s (handleOAuthCallback parse stringify params s)) = {}
   \<and> written (performed s (handleOAuthCallback parse stringify params s)) =
        (case handleOAuthCallback_try parse stringify params s of
           Inl err \<Rightarrow> {}
         | Inr s' \<Rightarrow>
             if truthy (get_param params ''expiry'') then persisted_keys
             else {''google_access_token'', ''google_user_info''})"
proof -
  have so: "performed s (signOut s) = [RemoveItem ''google_access_token'',
     RemoveItem ''google_user_info'', RemoveItem ''google_token_expiry'']"
    by (simp add: signOut_def performed_def trace_clear_storage)
  have ca: "performed s (checkAuth parse outcome s) = [] \<or>
    performed s (checkAuth parse outcome s) = [RemoveItem ''google_access_token'',
     RemoveItem ''google_user_info'', RemoveItem ''google_token_expiry'']"
    using trace_checkAuth[of parse outcome s]
    by (auto simp: performed_def trace_clear_storage)
  have cb: "performed s (handleOAuthCallback parse stringify params s) = []
   \<or> (\<exists>t u. performed s (handleOAuthCallback parse stringify params s) =
        [SetItem ''google_access_token'' t, SetItem ''google_user_info'' u]
        \<and> \<not> truthy (get_param params ''expiry''))
   \<or> (\<exists>t u e. performed s (handleOAuthCallback parse stringify params s) =
        [SetItem ''google_access_token'' t, SetItem ''google_user_info'' u,
                   SetItem ''google_token_expiry'' e]
        \<and> truthy (get_param params ''expiry''))"
    using trace_handleOAuthCallback[of parse stringify params s]
    by (auto simp: performed_def)
  have 1: "removed (performed s (signOut s)) = persisted_keys"
    by (simp add: so removed_three)
  have 2: "written (performed s (signOut s)) = {}"
    by (simp add: so written_def)
  have 3: "removed (performed s (checkAuth parse outcome s)) = {} \<or>
      removed (performed s (checkAuth parse outcome s)) = persisted_keys"
  proof -
    have "removed [] = {}" by (simp add: removed_def)
    with ca show ?thesis by (auto simp: removed_three)
  qed
  have 4: "written (performed s (checkAuth parse outcome s)) = {}"
    using ca by (auto simp: written_def)
  have 5: "removed (performed s (handleOAuthCallback parse stringify params s)) = {}"
    using cb by (auto simp: removed_def)
  have 6: "written (performed s (handleOAuthCallback parse stringify params s)) =
        (case handleOAuthCallback_try parse stringify params s of
           Inl err \<Rightarrow> {}
         | Inr s' \<Rightarrow>
             if truthy (get_param params ''expiry'') then persisted_keys
             else {''google_access_token'', ''google_user_info''})"
    by (rule written_handleOAuthCallback)
  from 1 2 3 4 5 6 show ?thesis by blast
qed

text \<open>A callback with an expiry writes the three keys; signing out removes the three.\<close>

theorem storage_keys_written_and_removed_witness:
  "written (performed (initial Map.empty :: string AuthState)
       (handleOAuthCallback (\<lambda>str. Inr (Some str))
        (\<lambda>u. case u of None \<Rightarrow> ''null'' | Some str \<Rightarrow> str)
         [(''access_token'', ''ya29.token''), (''expiry'', ''1767225600''), (''user'', ''{}'')]
         (initial Map.empty))) = persisted_keys
   \<and> removed (performed (initial Map.empty :: string AuthState) (signOut (initial Map.empty)))
       = persisted_keys"
proof -
  let ?s = "initial Map.empty :: string AuthState"
  let ?p = "[(''access_token'', ''ya29.token''), (''expiry'', ''1767225600''), (''user'', ''{}'')]"
  have ok: "\<exists>s'. handleOAuthCallback_try (\<lambda>str. Inr (Some str))
        (\<lambda>u. case u of None \<Rightarrow> ''null'' | Some str \<Rightarrow> str) ?p ?s = Inr s'"
    by (simp add: handleOAuthCallback_try_def get_param_def)
  have ex: "truthy (get_param ?p ''expiry'')"
    by (simp add: truthy_def get_param_def)
  show ?thesis
    using ok ex storage_keys_written_and_removed[of ?s "\<lambda>str. Inr (Some str)" "Inr True"
        "\<lambda>u. case u of None \<Rightarrow> ''null'' | Some str \<Rightarrow> str" ?p]
    by auto
qed

text \<open>
  The claim as stated fails on a successful callback without an expiry: the token is
  written and the expiry is not.
\<close>

theorem storage_keys_written_and_removed_counterexample:
  "''google_access_token'' \<in>
     written (performed (initial Map.empty :: string AuthState)
       (handleOAuthCallback (\<lambda>str. Inr (Some str))
        (\<lambda>u. case u of None \<Rightarrow> ''null'' | Some str \<Rightarrow> str)
         [(''access_token'', ''ya29.token''), (''user'', ''{}'')]
         (initial Map.empty)))
   \<and> ''google_token_expiry'' \<notin>
     written (performed (initial Map.empty :: string AuthState)
       (handleOAuthCallback (\<lambda>str. Inr (Some str))
        (\<lambda>u. case u of None \<Rightarrow> ''null'' | Some str \<Rightarrow> str)
         [(''access_token'', ''ya29.token''), (''user'', ''{}'')]
         (initial Map.empty)))"
  by (simp add: performed_def callback_without_expiry written_def) (simp add: initial_def)

end
